theory Spec2Isabelle
  imports Main "HOL-Library.Word"
begin

section \<open>JavaScript strings\<close>

text \<open>
  A JavaScript string is a sequence of 16-bit code units. Literals of the source are
  written with \<open>ustr\<close>; the accented letters of the Spanish messages are given by their
  code unit (all of them are below \<open>0x100\<close>).
\<close>

type_synonym jsstring = "16 word list"

definition ustr :: "string \<Rightarrow> jsstring" where
  "ustr s = map (\<lambda>c. of_char c) s"

text \<open>
  \<open>String.prototype.split(sep)\<close> with a one-unit separator and no limit: the pieces
  between the occurrences of \<open>sep\<close>; a string with no occurrence is one piece, the empty
  string is one empty piece.
\<close>

fun split_acc :: "'a \<Rightarrow> 'a list \<Rightarrow> 'a list \<Rightarrow> 'a list list" where
  "split_acc sep acc [] = [rev acc]"
| "split_acc sep acc (x # xs) =
     (if x = sep then rev acc # split_acc sep [] xs else split_acc sep (x # acc) xs)"

definition js_split :: "jsstring \<Rightarrow> 16 word \<Rightarrow> jsstring list" where
  "js_split s sep = split_acc sep [] s"

text \<open>
  \<open>String.prototype.trim()\<close> removes the code units of WhiteSpace and LineTerminator
  (ECMAScript 12.2, 12.3) from both ends.
\<close>

definition js_whitespace :: "16 word \<Rightarrow> bool" where
  "js_whitespace c \<longleftrightarrow>
     c \<in> {0x0009, 0x000A, 0x000B, 0x000C, 0x000D, 0x0020, 0x00A0, 0x1680,
          0x2000, 0x2001, 0x2002, 0x2003, 0x2004, 0x2005, 0x2006, 0x2007, 0x2008, 0x2009, 0x200A,
          0x2028, 0x2029, 0x202F, 0x205F, 0x3000, 0xFEFF}"

definition js_trim :: "jsstring \<Rightarrow> jsstring" where
  "js_trim s = rev (dropWhile js_whitespace (rev (dropWhile js_whitespace s)))"

text \<open>Truthiness of a value of type \<open>string | null\<close> (or \<open>string | undefined\<close>):
  \<open>null\<close>, \<open>undefined\<close> and the empty string are falsy.\<close>

fun truthy :: "jsstring option \<Rightarrow> bool" where
  "truthy None = False"
| "truthy (Some s) = (s \<noteq> [])"

text \<open>A value of type \<open>string | undefined\<close> inside a template literal.\<close>

fun template_str :: "jsstring option \<Rightarrow> jsstring" where
  "template_str None = ustr ''undefined''"
| "template_str (Some s) = s"

section \<open>The literals of \<open>index.tsx\<close>\<close>

definition DEFAULT_PROMPT :: jsstring where
  "DEFAULT_PROMPT = ustr ''modifica la imagen y dale un aspecto profesional, donde los colores destaquen y resalten lo mejor de la fotografia''"

definition MSG_UPLOAD_FIRST :: jsstring where
  "MSG_UPLOAD_FIRST = ustr ''Por favor, sube una imagen primero.''"

definition MSG_ENTER_PROMPT :: jsstring where
  "MSG_ENTER_PROMPT = ustr ''Por favor, ingresa una instrucci'' @ [0xF3] @ ustr ''n de edici'' @ [0xF3] @ ustr ''n.''"

definition MSG_NOTHING_TO_DOWNLOAD :: jsstring where
  "MSG_NOTHING_TO_DOWNLOAD = ustr ''No hay imagen editada para descargar.''"

definition MSG_CANNOT_READ :: jsstring where
  "MSG_CANNOT_READ = ustr ''No se pudo leer el archivo seleccionado. Por favor, intenta con otra imagen.''"

definition MSG_NO_CONTENT :: jsstring where
  "MSG_NO_CONTENT = ustr ''El modelo no devolvi'' @ [0xF3] @ ustr '' ning'' @ [0xFA] @ ustr ''n contenido editable.''"

definition MSG_NO_RESPONSE :: jsstring where
  "MSG_NO_RESPONSE = ustr ''No hubo respuesta del modelo. Por favor, int'' @ [0xE9] @ ustr ''ntalo de nuevo.''"

definition MSG_GENERIC_ERROR :: jsstring where
  "MSG_GENERIC_ERROR = ustr ''Ocurri'' @ [0xF3] @ ustr '' un error. Por favor, revisa la consola para m'' @ [0xE1] @ ustr ''s detalles.''"

definition DOWNLOAD_NAME :: jsstring where
  "DOWNLOAD_NAME = ustr ''imagen-editada.png''"

definition MODEL_NAME :: jsstring where
  "MODEL_NAME = ustr ''gemini-2.5-flash-image''"

section \<open>Data model\<close>

datatype js_error = Error jsstring | TypeError

text \<open>The result of a call that may throw (or of a promise that may reject).\<close>

datatype 'a attempt = Throws js_error | Returns 'a

text \<open>
  The response of \<open>generateContent\<close>, with the fields the code reads. Every field is
  optional in the SDK's declarations (\<open>candidates?\<close>, \<open>content?\<close>, \<open>parts?\<close>,
  \<open>inlineData?\<close>, \<open>text?\<close>, \<open>data?\<close>, \<open>mimeType?\<close>), so each is an option here.
\<close>

record blob =
  blob_data :: "jsstring option"
  blob_mimeType :: "jsstring option"

record part =
  part_inlineData :: "blob option"
  part_text :: "jsstring option"

record content =
  content_parts :: "part list option"

record candidate =
  candidate_content :: "content option"

record response =
  response_candidates :: "candidate list option"

datatype modality = IMAGE | TEXT

record request =
  req_model :: jsstring
  req_inline_data :: jsstring
  req_inline_mimeType :: jsstring
  req_text :: jsstring
  req_responseModalities :: "modality list"

text \<open>
  \<open>new GoogleGenAI(...)\<close> either throws or gives a client; the client's
  \<open>generateContent\<close> either throws (rejects) or gives a response.
\<close>

type_synonym genai = "(request \<Rightarrow> response attempt) attempt"

text \<open>The elements that the code creates or moves.\<close>

datatype element =
    Elem_loader
  | Elem_placeholder
  | Elem_img (img_src: jsstring) (img_alt: jsstring)
  | Elem_p (p_textContent: jsstring) (p_className: jsstring)
  | Elem_a (a_href: jsstring) (a_download: jsstring)

text \<open>
  The module's three variables, the properties of the page's elements that the code
  reads or writes, and what the code does to the outside: alerts, console errors,
  requests sent to the API, file saves started by clicking a download link, and
  exceptions that no handler caught.
\<close>

record session =
  imageBase64 :: "jsstring option"
  imageMimeType :: "jsstring option"
  editedImageSrc :: "jsstring option"
  promptInput_value :: jsstring
  originalImage_src :: jsstring
  originalImage_style_display :: jsstring
  uploadPlaceholder_hidden :: bool
  editButton_disabled :: bool
  resultContainer :: "element list"
  loader_hidden :: bool
  downloadButton_hidden :: bool
  document_body :: "element list"
  alerts :: "jsstring list"
  console_errors :: "(jsstring \<times> js_error) list"
  api_requests :: "request list"
  file_saves :: "(jsstring \<times> jsstring) list"
  uncaught :: "js_error list"

definition alert :: "jsstring \<Rightarrow> session \<Rightarrow> session" where
  "alert msg st = st\<lparr>alerts := alerts st @ [msg]\<rparr>"

definition console_error :: "jsstring \<Rightarrow> js_error \<Rightarrow> session \<Rightarrow> session" where
  "console_error label e st = st\<lparr>console_errors := console_errors st @ [(label, e)]\<rparr>"

text \<open>
  The state right after the module has been evaluated (lines 10-27): the three variables
  are \<open>null\<close>, the prompt field holds the default instruction, nothing has been done to
  the outside yet. The other properties come from the page's markup, which is not part
  of the source, and are left open.
\<close>

definition is_initial :: "session \<Rightarrow> bool" where
  "is_initial st \<longleftrightarrow>
     imageBase64 st = None \<and> imageMimeType st = None \<and> editedImageSrc st = None \<and>
     promptInput_value st = DEFAULT_PROMPT \<and>
     alerts st = [] \<and> console_errors st = [] \<and> api_requests st = [] \<and>
     file_saves st = [] \<and> uncaught st = []"

section \<open>Example prompts (lines 30-35)\<close>

definition promptExamples_change :: "jsstring \<Rightarrow> session \<Rightarrow> session" where
  "promptExamples_change selectedValue st =
     (if selectedValue \<noteq> [] then st\<lparr>promptInput_value := selectedValue\<rparr> else st)"

section \<open>Image selection (lines 38-70)\<close>

text \<open>
  The \<open>onload\<close> callback (lines 46-64), given the reader's result. Both throws happen
  before the first assignment, so a thrown error leaves the state as it was:
  the explicit \<open>Error\<close> when the result does not split into two pieces at the commas,
  and the \<open>TypeError\<close> of calling \<open>split\<close> on \<open>undefined\<close> when the first piece has no
  colon. The indices 0 and 1 are read from an array of length two, and \<open>split\<close> never
  gives an empty array (\<open>split_acc_nonempty\<close> below), so its element 0 is there.
\<close>

definition reader_onload :: "jsstring \<Rightarrow> session \<Rightarrow> js_error + session" where
  "reader_onload result st =
     (let dataUrlParts = js_split result 0x2C in
      if length dataUrlParts \<noteq> 2 then Inl (Error (ustr ''Invalid data URL format''))
      else
        (case js_split (dataUrlParts ! 0) 0x3A of
           _ # afterColon # _ \<Rightarrow>
             (let mimeTypePart = hd (js_split afterColon 0x3B) in
              Inr (st\<lparr>imageBase64 := Some (dataUrlParts ! 1),
                      imageMimeType := Some mimeTypePart,
                      originalImage_src := result,
                      originalImage_style_display := ustr ''block'',
                      uploadPlaceholder_hidden := True,
                      editButton_disabled := False\<rparr>))
         | _ \<Rightarrow> Inl TypeError))"

text \<open>
  The browser calls \<open>onload\<close> from the event loop, after the \<open>change\<close> handler and its
  \<open>try\<close> block have returned: an error thrown by the callback is caught by nobody.
\<close>

definition reader_onload_event :: "jsstring \<Rightarrow> session \<Rightarrow> session" where
  "reader_onload_event result st =
     (case reader_onload result st of
        Inl e \<Rightarrow> st\<lparr>uncaught := uncaught st @ [e]\<rparr>
      | Inr st' \<Rightarrow> st')"

text \<open>
  What becomes of \<open>reader.readAsDataURL(file)\<close>: the call itself throws, or the read
  fails later (no \<open>onerror\<close> handler is installed), or the read ends and \<open>onload\<close>
  is called with the data URL.
\<close>

datatype file_read = ReadThrows js_error | ReadFails | ReadLoads jsstring

text \<open>The synchronous part of the \<open>change\<close> handler: lines 39-42, 44-45, 65-69.\<close>

definition imageUpload_change_sync :: "file_read option \<Rightarrow> session \<Rightarrow> session" where
  "imageUpload_change_sync file st =
     (case file of
        None \<Rightarrow> st
      | Some (ReadThrows e) \<Rightarrow>
          alert MSG_CANNOT_READ (console_error (ustr ''Error reading file:'') e st)
      | Some _ \<Rightarrow> st)"

text \<open>The handler followed by the read's completion, with no other event in between.\<close>

definition imageUpload_change :: "file_read option \<Rightarrow> session \<Rightarrow> session" where
  "imageUpload_change file st =
     (let st1 = imageUpload_change_sync file st in
      case file of
        Some (ReadLoads result) \<Rightarrow> reader_onload_event result st1
      | _ \<Rightarrow> st1)"

section \<open>Edit submission (lines 73-86, 105-186)\<close>

definition displayError :: "jsstring \<Rightarrow> session \<Rightarrow> session" where
  "displayError message st =
     st\<lparr>resultContainer := [Elem_p message (ustr ''error'')], downloadButton_hidden := True\<rparr>"

text \<open>The template literal of line 145.\<close>

definition imageUrl_of :: "blob \<Rightarrow> jsstring" where
  "imageUrl_of b =
     ustr ''data:'' @ template_str (blob_mimeType b) @ ustr '';base64,'' @ template_str (blob_data b)"

text \<open>
  The body of the \<open>for\<close> loop (lines 143-161) on one part; the loop carries
  \<open>foundContent\<close> and the state. An \<open>inlineData\<close> object is truthy whatever it holds;
  a \<open>text\<close> is truthy when it is a non-empty string.
\<close>

definition render_part :: "jsstring \<Rightarrow> part \<Rightarrow> bool \<times> session \<Rightarrow> bool \<times> session" where
  "render_part prompt p fs =
     (case fs of (foundContent, st) \<Rightarrow>
        (case part_inlineData p of
           Some b \<Rightarrow>
             (let imageUrl = imageUrl_of b in
              (True, st\<lparr>resultContainer := resultContainer st @ [Elem_img imageUrl prompt],
                        editedImageSrc := Some imageUrl,
                        downloadButton_hidden := False\<rparr>))
         | None \<Rightarrow>
             if truthy (part_text p)
             then (True, st\<lparr>resultContainer :=
                               resultContainer st @ [Elem_p (the (part_text p)) (ustr ''model-text'')]\<rparr>)
             else (foundContent, st)))"

fun for_parts :: "jsstring \<Rightarrow> part list \<Rightarrow> bool \<times> session \<Rightarrow> bool \<times> session" where
  "for_parts prompt [] fs = fs"
| "for_parts prompt (p # ps) fs = for_parts prompt ps (render_part prompt p fs)"

text \<open>How a block of statements ends: normally, or by a thrown error (with the state
  at the throw).\<close>

datatype completion = Normal session | Abrupt js_error session

text \<open>
  Lines 138-168, the part of the \<open>try\<close> block after the response has arrived. Reading
  \<open>parts\<close> of an absent \<open>content\<close>, or iterating over absent \<open>parts\<close>, throws a
  \<open>TypeError\<close>.
\<close>

definition handle_response :: "jsstring \<Rightarrow> response \<Rightarrow> session \<Rightarrow> completion" where
  "handle_response prompt response st0 =
     (let st = st0\<lparr>resultContainer := []\<rparr> in
      case response_candidates response of
        Some (c # cs) \<Rightarrow>
          (case candidate_content c of
             None \<Rightarrow> Abrupt TypeError st
           | Some ct \<Rightarrow>
               (case content_parts ct of
                  None \<Rightarrow> Abrupt TypeError st
                | Some ps \<Rightarrow>
                    (case for_parts prompt ps (False, st) of
                       (foundContent, st') \<Rightarrow>
                         Normal (if \<not> foundContent then displayError MSG_NO_CONTENT st' else st'))))
      | _ \<Rightarrow> Normal (displayError MSG_NO_RESPONSE st))"

text \<open>Lines 107-112.\<close>

definition set_loading :: "session \<Rightarrow> session" where
  "set_loading st =
     st\<lparr>resultContainer := [Elem_loader],
        loader_hidden := False,
        editButton_disabled := True,
        downloadButton_hidden := True,
        editedImageSrc := None\<rparr>"

text \<open>Lines 170-172 and 173-176.\<close>

definition catch_block :: "js_error \<Rightarrow> session \<Rightarrow> session" where
  "catch_block e st =
     displayError MSG_GENERIC_ERROR (console_error (ustr ''Error calling Gemini API:'') e st)"

definition finally_block :: "session \<Rightarrow> session" where
  "finally_block st = st\<lparr>loader_hidden := True, editButton_disabled := False\<rparr>"

text \<open>Lines 119-135: the request, and the moment it leaves for the API.\<close>

definition build_request :: "jsstring \<Rightarrow> jsstring \<Rightarrow> jsstring \<Rightarrow> request" where
  "build_request prompt base64Data mimeType =
     \<lparr>req_model = MODEL_NAME,
      req_inline_data = base64Data,
      req_inline_mimeType = mimeType,
      req_text = prompt,
      req_responseModalities = [IMAGE, TEXT]\<rparr>"

definition send_request :: "request \<Rightarrow> session \<Rightarrow> session" where
  "send_request req st = st\<lparr>api_requests := api_requests st @ [req]\<rparr>"

text \<open>
  What \<open>callGemini\<close> does once the awaited request has settled (lines 137-176):
  a rejection goes to the \<open>catch\<close> block, a response is handled, and an error thrown
  while handling it goes to the \<open>catch\<close> block too; the \<open>finally\<close> block ends every
  path.
\<close>

definition callGemini_settle :: "jsstring \<Rightarrow> response attempt \<Rightarrow> session \<Rightarrow> session" where
  "callGemini_settle prompt outcome st =
     finally_block
       (case outcome of
          Throws e \<Rightarrow> catch_block e st
        | Returns response \<Rightarrow>
            (case handle_response prompt response st of
               Normal st' \<Rightarrow> st'
             | Abrupt e st' \<Rightarrow> catch_block e st'))"

text \<open>
  \<open>callGemini\<close> (lines 105-177), with the request settled before any other event is
  handled. The function is \<open>async\<close> and catches every error of its body, so it always
  ends with a state.
\<close>

definition callGemini :: "jsstring \<Rightarrow> jsstring \<Rightarrow> jsstring \<Rightarrow> genai \<Rightarrow> session \<Rightarrow> session" where
  "callGemini prompt base64Data mimeType sdk st =
     (let st1 = set_loading st in
      case sdk of
        Throws e \<Rightarrow> finally_block (catch_block e st1)
      | Returns generateContent \<Rightarrow>
          (let req = build_request prompt base64Data mimeType in
           callGemini_settle prompt (generateContent req) (send_request req st1)))"

text \<open>The click handler of the edit button (lines 73-86).\<close>

definition editButton_click :: "genai \<Rightarrow> session \<Rightarrow> session" where
  "editButton_click sdk st =
     (if \<not> truthy (imageBase64 st) \<or> \<not> truthy (imageMimeType st)
      then alert MSG_UPLOAD_FIRST st
      else
        (let prompt = promptInput_value st in
         if js_trim prompt = [] then alert MSG_ENTER_PROMPT st
         else callGemini prompt (the (imageBase64 st)) (the (imageMimeType st)) sdk st))"

section \<open>Download (lines 89-101)\<close>

text \<open>
  The link is appended to the body, clicked and removed again. Clicking a link that
  has a \<open>download\<close> attribute starts a file save of its \<open>href\<close> under that name.
\<close>

definition downloadButton_click :: "session \<Rightarrow> session" where
  "downloadButton_click st =
     (if \<not> truthy (editedImageSrc st) then alert MSG_NOTHING_TO_DOWNLOAD st
      else
        (let a = Elem_a (the (editedImageSrc st)) DOWNLOAD_NAME;
             st1 = st\<lparr>document_body := document_body st @ [a]\<rparr>;
             st2 = st1\<lparr>file_saves := file_saves st1 @ [(a_href a, a_download a)]\<rparr>
         in st2\<lparr>document_body := butlast (document_body st2)\<rparr>))"

section \<open>Runs of the session\<close>

text \<open>
  The events of the page. \<open>PromptInputEdit\<close> is the user typing into the prompt
  field. \<open>EditButtonClick\<close> is a click whose request settles before
  the next event. Since the handler is suspended while the request is awaited, other
  events may come in between: \<open>RequestStart\<close> is the handler up to the \<open>await\<close> and
  \<open>RequestSettle\<close> its continuation, taken at any time and with any arguments, which
  covers every interleaving. In the same way \<open>ImageUploadChange\<close> is the synchronous
  part of the file input's handler and \<open>ReaderLoad\<close> the later \<open>onload\<close> callback.
\<close>

datatype event =
    PromptInputEdit jsstring
  | PromptExamplesChange jsstring
  | ImageUploadChange "file_read option"
  | ReaderLoad jsstring
  | EditButtonClick genai
  | DownloadButtonClick
  | RequestStart jsstring jsstring jsstring
  | RequestSettle jsstring "response attempt"

fun step :: "event \<Rightarrow> session \<Rightarrow> session" where
  "step (PromptInputEdit v) st = st\<lparr>promptInput_value := v\<rparr>"
| "step (PromptExamplesChange v) st = promptExamples_change v st"
| "step (ImageUploadChange file) st = imageUpload_change_sync file st"
| "step (ReaderLoad result) st = reader_onload_event result st"
| "step (EditButtonClick sdk) st = editButton_click sdk st"
| "step DownloadButtonClick st = downloadButton_click st"
| "step (RequestStart prompt base64Data mimeType) st =
     send_request (build_request prompt base64Data mimeType) (set_loading st)"
| "step (RequestSettle prompt outcome) st = callGemini_settle prompt outcome st"

fun run :: "event list \<Rightarrow> session \<Rightarrow> session" where
  "run [] st = st"
| "run (ev # evs) st = run evs (step ev st)"


section \<open>Auxiliary definitions for the statements\<close>

text \<open>The data URLs of the inline-binary parts of a list of parts, in order.\<close>

definition image_urls :: "part list \<Rightarrow> jsstring list" where
  "image_urls ps = map imageUrl_of (List.map_filter part_inlineData ps)"

text \<open>The parts that the loop of \<open>callGemini\<close> iterates over, when the response has them.\<close>

definition first_candidate_parts :: "response \<Rightarrow> part list option" where
  "first_candidate_parts r =
     (case response_candidates r of
        Some (c # cs) \<Rightarrow> (case candidate_content c of Some ct \<Rightarrow> content_parts ct | None \<Rightarrow> None)
      | _ \<Rightarrow> None)"

text \<open>
  A page as it may look after loading (the markup is not part of the source), and the
  same page after the user has chosen a small PNG file. Both serve as concrete inputs.
\<close>

definition example_page :: session where
  "example_page =
     \<lparr>imageBase64 = None, imageMimeType = None, editedImageSrc = None,
      promptInput_value = DEFAULT_PROMPT,
      originalImage_src = [], originalImage_style_display = ustr ''none'',
      uploadPlaceholder_hidden = False, editButton_disabled = True,
      resultContainer = [Elem_placeholder], loader_hidden = True,
      downloadButton_hidden = True, document_body = [],
      alerts = [], console_errors = [], api_requests = [], file_saves = [], uncaught = []\<rparr>"

definition example_data_url :: jsstring where
  "example_data_url = ustr ''data:image/png;base64,AAAA''"

definition example_loaded :: session where
  "example_loaded =
     run [ImageUploadChange (Some (ReadLoads example_data_url)), ReaderLoad example_data_url]
       example_page"

text \<open>The loaded page with a prompt of a space, a line feed and an ideographic space.\<close>

definition example_blank :: session where
  "example_blank = step (PromptInputEdit [0x20, 0x0A, 0x3000]) example_loaded"

text \<open>An SDK whose constructor succeeds and whose every request gives the response \<open>r\<close>.\<close>

definition example_sdk :: "response \<Rightarrow> genai" where
  "example_sdk r = Returns (\<lambda>req. Returns r)"

text \<open>
  Two parts with inline data (the first also has a text), a part with a text only, a
  response with one candidate that has the given parts, and a run of the page: a file
  is chosen and read, then the edit button is clicked and the API answers with one image.
\<close>

definition example_png :: part where
  "example_png = \<lparr>part_inlineData = Some \<lparr>blob_data = Some (ustr ''AAAA''), blob_mimeType = Some (ustr ''image/png'')\<rparr>,
                  part_text = Some (ustr ''first'')\<rparr>"

definition example_jpeg :: part where
  "example_jpeg = \<lparr>part_inlineData = Some \<lparr>blob_data = Some (ustr ''BBBB''), blob_mimeType = Some (ustr ''image/jpeg'')\<rparr>,
                   part_text = None\<rparr>"

definition example_text :: part where
  "example_text = \<lparr>part_inlineData = None, part_text = Some (ustr ''second'')\<rparr>"

definition example_response :: "part list \<Rightarrow> response" where
  "example_response ps =
     \<lparr>response_candidates = Some [\<lparr>candidate_content = Some \<lparr>content_parts = Some ps\<rparr>\<rparr>]\<rparr>"

definition example_events :: "event list" where
  "example_events =
     [ImageUploadChange (Some (ReadLoads example_data_url)), ReaderLoad example_data_url,
      EditButtonClick (example_sdk (example_response [example_png]))]"




section \<open>Basic facts\<close>

lemma dropWhile_all_iff: "(\<forall>x \<in> set (dropWhile Q s). Q x) \<longleftrightarrow> (\<forall>x \<in> set s. Q x)"
  by (induction s) auto

lemma js_trim_empty_iff: "js_trim s = [] \<longleftrightarrow> (\<forall>c \<in> set s. js_whitespace c)"
  by (simp add: js_trim_def dropWhile_eq_Nil_conv dropWhile_all_iff)

lemma split_acc_nonempty: "split_acc sep acc xs \<noteq> []"
  by (induction xs arbitrary: acc) auto

lemma ustr_nil: "ustr [] = []"
  by (simp add: ustr_def)

lemma ustr_cons: "ustr (c # cs) = of_char c # ustr cs"
  by (simp add: ustr_def)

lemma imageUrl_of_nonempty: "imageUrl_of b \<noteq> []"
  by (simp add: imageUrl_of_def ustr_cons)

lemma finally_block_fields:
  "loader_hidden (finally_block st)"
  "\<not> editButton_disabled (finally_block st)"
  "editedImageSrc (finally_block st) = editedImageSrc st"
  "downloadButton_hidden (finally_block st) = downloadButton_hidden st"
  "resultContainer (finally_block st) = resultContainer st"
  "imageBase64 (finally_block st) = imageBase64 st"
  "imageMimeType (finally_block st) = imageMimeType st"
  by (simp_all add: finally_block_def)

section \<open>Cleanup after a submission\<close>

lemma callGemini_settle_cleanup:
  "loader_hidden (callGemini_settle prompt outcome st) \<and>
   \<not> editButton_disabled (callGemini_settle prompt outcome st)"
  by (simp add: callGemini_settle_def finally_block_fields)

lemma callGemini_cleanup:
  "loader_hidden (callGemini prompt b m sdk st) \<and>
   \<not> editButton_disabled (callGemini prompt b m sdk st)"
  by (cases sdk) (simp_all add: callGemini_def Let_def finally_block_fields callGemini_settle_cleanup)

text \<open>
  C1. A click on the edit button that passes both preconditions (an image is loaded, the
  prompt is not blank) ends with the busy indicator hidden and the submit control
  enabled, whatever the SDK does: the constructor throws, the request is rejected, the
  response is handled, is empty, or throws while being handled.
\<close>

theorem C1_cleanup:
  assumes "truthy (imageBase64 st)" and "truthy (imageMimeType st)"
    and "js_trim (promptInput_value st) \<noteq> []"
  shows "loader_hidden (editButton_click sdk st) \<and> \<not> editButton_disabled (editButton_click sdk st)"
  using assms by (simp add: editButton_click_def Let_def callGemini_cleanup)

theorem C1_cleanup_witness:
  "truthy (imageBase64 example_loaded) \<and> truthy (imageMimeType example_loaded) \<and>
   js_trim (promptInput_value example_loaded) \<noteq> [] \<and>
   loader_hidden (editButton_click (Throws TypeError) example_loaded) \<and>
   \<not> editButton_disabled (editButton_click (Throws TypeError) example_loaded)"
proof -
  have h1: "truthy (imageBase64 example_loaded)" by code_simp
  have h2: "truthy (imageMimeType example_loaded)" by code_simp
  have h3: "js_trim (promptInput_value example_loaded) \<noteq> []" by code_simp
  show ?thesis using C1_cleanup [OF h1 h2 h3, of "Throws TypeError"] h1 h2 h3 by simp
qed

section \<open>The loop over the parts\<close>

lemma image_urls_Nil: "image_urls [] = []"
  by (simp add: image_urls_def)

lemma image_urls_Cons:
  "image_urls (p # ps) =
     (case part_inlineData p of None \<Rightarrow> image_urls ps | Some b \<Rightarrow> imageUrl_of b # image_urls ps)"
  by (simp add: image_urls_def split: option.splits)

lemma image_urls_empty_iff: "image_urls ps = [] \<longleftrightarrow> (\<forall>p \<in> set ps. part_inlineData p = None)"
  by (induction ps) (auto simp: image_urls_Nil image_urls_Cons split: option.splits)

lemma for_parts_editedImageSrc:
  "editedImageSrc (snd (for_parts prompt ps (f, st))) =
     (if image_urls ps = [] then editedImageSrc st else Some (last (image_urls ps)))"
proof (induction ps arbitrary: f st)
  case Nil
  show ?case by (simp add: image_urls_Nil)
next
  case (Cons p ps)
  show ?case
    by (cases "part_inlineData p") (simp_all add: render_part_def Let_def image_urls_Cons Cons.IH)
qed

lemma for_parts_downloadButton_hidden:
  "downloadButton_hidden (snd (for_parts prompt ps (f, st))) =
     (if image_urls ps = [] then downloadButton_hidden st else False)"
proof (induction ps arbitrary: f st)
  case Nil
  show ?case by (simp add: image_urls_Nil)
next
  case (Cons p ps)
  show ?case
    by (cases "part_inlineData p") (simp_all add: render_part_def Let_def image_urls_Cons Cons.IH)
qed

lemma for_parts_found:
  "fst (for_parts prompt ps (f, st)) \<longleftrightarrow>
     f \<or> (\<exists>p \<in> set ps. part_inlineData p \<noteq> None \<or> truthy (part_text p))"
proof (induction ps arbitrary: f st)
  case Nil
  show ?case by simp
next
  case (Cons p ps)
  show ?case
    by (cases "part_inlineData p") (auto simp: render_part_def Let_def Cons.IH)
qed


section \<open>Preconditions of a submission\<close>

text \<open>
  C2. When no image is loaded (\<open>imageBase64\<close> is \<open>null\<close>) or every code unit of the
  prompt is white space, a click on the edit button shows one alert and does nothing
  else: no request is added to those sent to the API, and the state after the click is
  the state before it with the one alert added. The alert asks for an image when the
  image data or the MIME type is falsy, and for an instruction otherwise.
\<close>

theorem C2_preconditions:
  assumes "imageBase64 st = None \<or> (\<forall>c \<in> set (promptInput_value st). js_whitespace c)"
  shows "editButton_click sdk st =
           alert (if truthy (imageBase64 st) \<and> truthy (imageMimeType st)
                  then MSG_ENTER_PROMPT else MSG_UPLOAD_FIRST) st \<and>
         alerts (editButton_click sdk st) \<noteq> alerts st \<and>
         api_requests (editButton_click sdk st) = api_requests st \<and>
         editButton_click sdk st = st\<lparr>alerts := alerts (editButton_click sdk st)\<rparr>"
  using assms
  by (auto simp: editButton_click_def Let_def alert_def js_trim_empty_iff)

theorem C2_preconditions_witness:
  "(imageBase64 example_blank = None \<or> (\<forall>c \<in> set (promptInput_value example_blank). js_whitespace c)) \<and>
   editButton_click (example_sdk \<lparr>response_candidates = None\<rparr>) example_blank
     = alert MSG_ENTER_PROMPT example_blank \<and>
   api_requests (editButton_click (example_sdk \<lparr>response_candidates = None\<rparr>) example_blank) = []"
proof -
  have h: "imageBase64 example_blank = None \<or> (\<forall>c \<in> set (promptInput_value example_blank). js_whitespace c)"
    by (simp add: example_blank_def js_whitespace_def)
  have a: "api_requests example_blank = []" by code_simp
  have t1: "truthy (imageBase64 example_blank)" by code_simp
  have t2: "truthy (imageMimeType example_blank)" by code_simp
  show ?thesis
    using C2_preconditions [OF h, of "example_sdk \<lparr>response_candidates = None\<rparr>"] h a t1 t2
    by (simp add: alert_def)
qed

lemma editButton_click_no_image_example:
  "editButton_click (example_sdk \<lparr>response_candidates = None\<rparr>) example_page
     = alert MSG_UPLOAD_FIRST example_page"
  by code_simp

section \<open>A malformed data URL\<close>

lemma reader_onload_malformed:
  "length (js_split result 0x2C) \<noteq> 2 \<Longrightarrow>
   imageUpload_change (Some (ReadLoads result)) st =
     st\<lparr>uncaught := uncaught st @ [Error (ustr ''Invalid data URL format'')]\<rparr>"
  by (simp add: imageUpload_change_def imageUpload_change_sync_def reader_onload_event_def
      reader_onload_def Let_def)

text \<open>
  C3. The reader result \<open>data:\<close> has no comma, so it is one piece and not two. The
  callback throws its \<open>Error\<close>, and the state is left as it was; but the callback runs
  after the \<open>try\<close> block of the handler has ended, so the error is caught by nobody and
  the alert of the \<open>catch\<close> block is not shown: the list of alerts is unchanged.
\<close>

theorem C3_malformed_no_notice:
  "length (js_split (ustr ''data:'') 0x2C) \<noteq> 2 \<and>
   imageUpload_change (Some (ReadLoads (ustr ''data:''))) st =
     st\<lparr>uncaught := uncaught st @ [Error (ustr ''Invalid data URL format'')]\<rparr> \<and>
   alerts (imageUpload_change (Some (ReadLoads (ustr ''data:''))) st) = alerts st"
proof -
  have h: "length (js_split (ustr ''data:'') 0x2C) \<noteq> 2" by code_simp
  show ?thesis using h by (simp add: reader_onload_malformed)
qed

section \<open>The parts of a response\<close>

lemma handle_response_parts:
  assumes "response_candidates r = Some (c # cs)" and "candidate_content c = Some ct"
    and "content_parts ct = Some ps"
  shows "handle_response prompt r st =
     (case for_parts prompt ps (False, st\<lparr>resultContainer := []\<rparr>) of
        (foundContent, st') \<Rightarrow>
           Normal (if \<not> foundContent then displayError MSG_NO_CONTENT st' else st'))"
  using assms by (simp add: handle_response_def Let_def)

lemma callGemini_returns:
  "callGemini prompt b m (Returns g) st =
     callGemini_settle prompt (g (build_request prompt b m))
       (send_request (build_request prompt b m) (set_loading st))"
  by (simp add: callGemini_def Let_def)

lemma settle_with_images:
  assumes "response_candidates r = Some (c # cs)" and "candidate_content c = Some ct"
    and "content_parts ct = Some ps" and "image_urls ps \<noteq> []"
  shows "editedImageSrc (callGemini_settle prompt (Returns r) st) = Some (last (image_urls ps))"
    and "\<not> downloadButton_hidden (callGemini_settle prompt (Returns r) st)"
proof -
  obtain f st' where fp: "for_parts prompt ps (False, st\<lparr>resultContainer := []\<rparr>) = (f, st')"
    by (cases "for_parts prompt ps (False, st\<lparr>resultContainer := []\<rparr>)")
  have "f = fst (for_parts prompt ps (False, st\<lparr>resultContainer := []\<rparr>))" using fp by simp
  then have f: f using assms(4) by (auto simp: for_parts_found image_urls_empty_iff)
  have st': "st' = snd (for_parts prompt ps (False, st\<lparr>resultContainer := []\<rparr>))" using fp by simp
  have hr: "handle_response prompt r st = Normal st'"
    using handle_response_parts [OF assms(1-3)] fp f by simp
  show "editedImageSrc (callGemini_settle prompt (Returns r) st) = Some (last (image_urls ps))"
    using assms(4) by (simp add: callGemini_settle_def hr finally_block_fields st' for_parts_editedImageSrc)
  show "\<not> downloadButton_hidden (callGemini_settle prompt (Returns r) st)"
    using assms(4) by (simp add: callGemini_settle_def hr finally_block_fields st' for_parts_downloadButton_hidden)
qed

text \<open>
  C4. When the SDK answers the request with a response whose first candidate has two or
  more inline-binary parts, the loop body stores the data URL of each such part over
  whatever was stored before, the stored result after \<open>callGemini\<close> is the data URL of
  the last of them, and the download control is shown.
\<close>

theorem C4_last_wins:
  assumes "g (build_request prompt b m) = Returns r"
    and "response_candidates r = Some (c # cs)" and "candidate_content c = Some ct"
    and "content_parts ct = Some ps" and "2 \<le> length (image_urls ps)"
  shows "(\<forall>p \<in> set ps. \<forall>bl f s. part_inlineData p = Some bl \<longrightarrow>
            editedImageSrc (snd (render_part prompt p (f, s))) = Some (imageUrl_of bl)) \<and>
         editedImageSrc (callGemini prompt b m (Returns g) st) = Some (last (image_urls ps)) \<and>
         \<not> downloadButton_hidden (callGemini prompt b m (Returns g) st)"
proof -
  have ne: "image_urls ps \<noteq> []" using assms(5) by auto
  have step: "\<forall>p \<in> set ps. \<forall>bl f s. part_inlineData p = Some bl \<longrightarrow>
            editedImageSrc (snd (render_part prompt p (f, s))) = Some (imageUrl_of bl)"
    by (simp add: render_part_def Let_def)
  show ?thesis
    using settle_with_images [OF assms(2-4) ne] step by (simp add: callGemini_returns assms(1))
qed

theorem C4_last_wins_witness:
  "2 \<le> length (image_urls [example_png, example_jpeg]) \<and>
   editedImageSrc (callGemini DEFAULT_PROMPT (ustr ''AAAA'') (ustr ''image/png'')
       (example_sdk (example_response [example_png, example_jpeg])) example_loaded)
     = Some (ustr ''data:image/jpeg;base64,BBBB'') \<and>
   \<not> downloadButton_hidden (callGemini DEFAULT_PROMPT (ustr ''AAAA'') (ustr ''image/png'')
       (example_sdk (example_response [example_png, example_jpeg])) example_loaded)"
proof -
  let ?r = "example_response [example_png, example_jpeg]"
  have h1: "(\<lambda>req. Returns ?r) (build_request DEFAULT_PROMPT (ustr ''AAAA'') (ustr ''image/png'')) = Returns ?r"
    by simp
  have h2: "response_candidates ?r = Some (\<lparr>candidate_content = Some \<lparr>content_parts = Some [example_png, example_jpeg]\<rparr>\<rparr> # [])"
    by (simp add: example_response_def)
  have h3: "candidate_content \<lparr>candidate_content = Some \<lparr>content_parts = Some [example_png, example_jpeg]\<rparr>\<rparr>
              = Some \<lparr>content_parts = Some [example_png, example_jpeg]\<rparr>"
    by simp
  have h4: "content_parts \<lparr>content_parts = Some [example_png, example_jpeg]\<rparr> = Some [example_png, example_jpeg]"
    by simp
  have h5: "2 \<le> length (image_urls [example_png, example_jpeg])" by code_simp
  have l: "last (image_urls [example_png, example_jpeg]) = ustr ''data:image/jpeg;base64,BBBB''"
    by code_simp
  show ?thesis
    using C4_last_wins [OF h1 h2 h3 h4 h5, where st = example_loaded] h5 l
    by (simp add: example_sdk_def)
qed


section \<open>The two image fields\<close>

lemma render_part_frame:
  "render_part prompt p (f, st) = (f', st') \<Longrightarrow>
   imageBase64 st' = imageBase64 st \<and> imageMimeType st' = imageMimeType st \<and>
   promptInput_value st' = promptInput_value st \<and> alerts st' = alerts st \<and>
   api_requests st' = api_requests st \<and> file_saves st' = file_saves st"
  by (auto simp: render_part_def Let_def split: option.splits if_splits)

lemma for_parts_frame:
  "for_parts prompt ps (f, st) = (f', st') \<Longrightarrow>
   imageBase64 st' = imageBase64 st \<and> imageMimeType st' = imageMimeType st \<and>
   promptInput_value st' = promptInput_value st \<and> alerts st' = alerts st \<and>
   api_requests st' = api_requests st \<and> file_saves st' = file_saves st"
proof (induction ps arbitrary: f st)
  case Nil
  then show ?case by simp
next
  case (Cons p ps)
  obtain f1 st1 where r: "render_part prompt p (f, st) = (f1, st1)"
    by (cases "render_part prompt p (f, st)")
  from Cons.prems r have "for_parts prompt ps (f1, st1) = (f', st')" by simp
  from Cons.IH [OF this] render_part_frame [OF r] show ?case by simp
qed

lemma handle_response_frame:
  "handle_response prompt r st = Normal st' \<or> handle_response prompt r st = Abrupt e st' \<Longrightarrow>
   imageBase64 st' = imageBase64 st \<and> imageMimeType st' = imageMimeType st"
  by (auto simp: handle_response_def Let_def displayError_def
      split: option.splits list.splits prod.splits if_splits dest: for_parts_frame)

lemma callGemini_settle_frame:
  "imageBase64 (callGemini_settle prompt outcome st) = imageBase64 st \<and>
   imageMimeType (callGemini_settle prompt outcome st) = imageMimeType st"
proof (cases outcome)
  case (Throws e)
  then show ?thesis
    by (simp add: callGemini_settle_def finally_block_def catch_block_def displayError_def
        console_error_def)
next
  case (Returns r)
  show ?thesis
  proof (cases "handle_response prompt r st")
    case (Normal st')
    with Returns handle_response_frame [of prompt r st st'] show ?thesis
      by (simp add: callGemini_settle_def finally_block_def)
  next
    case (Abrupt e st')
    with Returns handle_response_frame [of prompt r st st' e] show ?thesis
      by (simp add: callGemini_settle_def finally_block_def catch_block_def displayError_def
          console_error_def)
  qed
qed

lemma callGemini_frame:
  "imageBase64 (callGemini prompt b m sdk st) = imageBase64 st \<and>
   imageMimeType (callGemini prompt b m sdk st) = imageMimeType st"
  by (cases sdk)
    (simp_all add: callGemini_def Let_def callGemini_settle_frame finally_block_def
      catch_block_def displayError_def console_error_def send_request_def set_loading_def)

lemma reader_onload_sets_both:
  "reader_onload result st = Inr st' \<Longrightarrow> imageBase64 st' \<noteq> None \<and> imageMimeType st' \<noteq> None"
  by (auto simp: reader_onload_def Let_def split: if_splits list.splits)

lemma step_image_fields:
  "(imageBase64 (step ev st) = imageBase64 st \<and> imageMimeType (step ev st) = imageMimeType st) \<or>
   (\<exists>result. ev = ReaderLoad result \<and> reader_onload result st = Inr (step ev st) \<and>
      imageBase64 (step ev st) \<noteq> None \<and> imageMimeType (step ev st) \<noteq> None)"
proof (cases ev)
  case (PromptInputEdit v)
  then show ?thesis by simp
next
  case (PromptExamplesChange v)
  then show ?thesis by (simp add: promptExamples_change_def)
next
  case (ImageUploadChange f)
  then show ?thesis
    by (simp add: imageUpload_change_sync_def alert_def console_error_def
        split: option.splits file_read.splits)
next
  case (ReaderLoad result)
  show ?thesis
  proof (cases "reader_onload result st")
    case (Inl e)
    with ReaderLoad show ?thesis by (simp add: reader_onload_event_def)
  next
    case (Inr st')
    with ReaderLoad reader_onload_sets_both [OF Inr] show ?thesis
      by (simp add: reader_onload_event_def)
  qed
next
  case (EditButtonClick sdk)
  then show ?thesis by (simp add: editButton_click_def Let_def alert_def callGemini_frame)
next
  case DownloadButtonClick
  then show ?thesis by (simp add: downloadButton_click_def Let_def alert_def)
next
  case (RequestStart p b m)
  then show ?thesis by (simp add: send_request_def set_loading_def)
next
  case (RequestSettle p outcome)
  then show ?thesis by (simp add: callGemini_settle_frame)
qed

lemma run_both_or_neither:
  "(imageBase64 st = None) = (imageMimeType st = None) \<Longrightarrow>
   (imageBase64 (run evs st) = None) = (imageMimeType (run evs st) = None)"
proof (induction evs arbitrary: st)
  case Nil
  then show ?case by simp
next
  case (Cons ev evs)
  have "(imageBase64 (step ev st) = None) = (imageMimeType (step ev st) = None)"
    using step_image_fields [of ev st] Cons.prems by auto
  from Cons.IH [OF this] show ?case by simp
qed

text \<open>
  C6. After any sequence of events from the initial state, \<open>imageBase64\<close> and
  \<open>imageMimeType\<close> are both \<open>null\<close> or both set. Every further event either leaves
  both as they are, or is the \<open>onload\<close> callback of a file read that ended normally
  and has set both from its one result.
\<close>

theorem C6_both_or_neither:
  assumes "is_initial s0"
  shows "((imageBase64 (run evs s0) = None) = (imageMimeType (run evs s0) = None)) \<and>
         ((imageBase64 (step ev (run evs s0)) = imageBase64 (run evs s0) \<and>
           imageMimeType (step ev (run evs s0)) = imageMimeType (run evs s0)) \<or>
          (\<exists>result. ev = ReaderLoad result \<and>
             reader_onload result (run evs s0) = Inr (step ev (run evs s0)) \<and>
             imageBase64 (step ev (run evs s0)) \<noteq> None \<and>
             imageMimeType (step ev (run evs s0)) \<noteq> None))"
proof -
  have "(imageBase64 s0 = None) = (imageMimeType s0 = None)"
    using assms by (simp add: is_initial_def)
  then have inv: "(imageBase64 (run evs s0) = None) = (imageMimeType (run evs s0) = None)"
    by (rule run_both_or_neither)
  show ?thesis
    by (rule conjI) (rule inv, rule step_image_fields)
qed

theorem C6_both_or_neither_witness:
  "is_initial example_page \<and>
   imageBase64 (run [ImageUploadChange (Some (ReadLoads example_data_url))] example_page) = None \<and>
   imageMimeType (run [ImageUploadChange (Some (ReadLoads example_data_url))] example_page) = None \<and>
   imageBase64 (step (ReaderLoad example_data_url)
      (run [ImageUploadChange (Some (ReadLoads example_data_url))] example_page)) = Some (ustr ''AAAA'') \<and>
   imageMimeType (step (ReaderLoad example_data_url)
      (run [ImageUploadChange (Some (ReadLoads example_data_url))] example_page)) = Some (ustr ''image/png'')"
proof -
  have h: "is_initial example_page" by code_simp
  have a: "imageBase64 (run [ImageUploadChange (Some (ReadLoads example_data_url))] example_page) = None"
    by code_simp
  have b: "imageBase64 (step (ReaderLoad example_data_url)
      (run [ImageUploadChange (Some (ReadLoads example_data_url))] example_page)) = Some (ustr ''AAAA'')"
    by code_simp
  have c: "imageMimeType (step (ReaderLoad example_data_url)
      (run [ImageUploadChange (Some (ReadLoads example_data_url))] example_page)) = Some (ustr ''image/png'')"
    by code_simp
  show ?thesis
    using C6_both_or_neither [OF h, of "[ImageUploadChange (Some (ReadLoads example_data_url))]"
        "ReaderLoad example_data_url"] h a b c
    by simp
qed


section \<open>The stored result\<close>

lemma handle_response_eq:
  "handle_response prompt r st =
     (case first_candidate_parts r of
        Some ps \<Rightarrow>
          (let fs = for_parts prompt ps (False, st\<lparr>resultContainer := []\<rparr>) in
           Normal (if \<not> fst fs then displayError MSG_NO_CONTENT (snd fs) else snd fs))
      | None \<Rightarrow>
          (case response_candidates r of
             Some (c # cs) \<Rightarrow> Abrupt TypeError (st\<lparr>resultContainer := []\<rparr>)
           | _ \<Rightarrow> Normal (displayError MSG_NO_RESPONSE (st\<lparr>resultContainer := []\<rparr>))))"
  by (simp add: handle_response_def first_candidate_parts_def Let_def
      split: option.splits list.splits prod.splits)

lemma displayError_fields:
  "editedImageSrc (displayError msg st) = editedImageSrc st"
  "downloadButton_hidden (displayError msg st)"
  "resultContainer (displayError msg st) = [Elem_p msg (ustr ''error'')]"
  by (simp_all add: displayError_def)

lemma catch_block_fields:
  "editedImageSrc (catch_block e st) = editedImageSrc st"
  "downloadButton_hidden (catch_block e st)"
  "resultContainer (catch_block e st) = [Elem_p MSG_GENERIC_ERROR (ustr ''error'')]"
  by (simp_all add: catch_block_def displayError_def console_error_def)

lemma settle_editedImageSrc:
  "editedImageSrc (callGemini_settle prompt outcome st) =
     (case outcome of
        Throws e \<Rightarrow> editedImageSrc st
      | Returns r \<Rightarrow>
          (case first_candidate_parts r of
             None \<Rightarrow> editedImageSrc st
           | Some ps \<Rightarrow>
               if image_urls ps = [] then editedImageSrc st else Some (last (image_urls ps))))"
  by (simp add: callGemini_settle_def handle_response_eq Let_def finally_block_fields
      catch_block_fields displayError_fields for_parts_editedImageSrc
      split: attempt.splits option.splits list.splits)

lemma callGemini_editedImageSrc:
  "editedImageSrc (callGemini prompt b m sdk st) =
     (case sdk of
        Throws e \<Rightarrow> None
      | Returns g \<Rightarrow>
          (case g (build_request prompt b m) of
             Throws e \<Rightarrow> None
           | Returns r \<Rightarrow>
               (case first_candidate_parts r of
                  None \<Rightarrow> None
                | Some ps \<Rightarrow> if image_urls ps = [] then None else Some (last (image_urls ps)))))"
proof (cases sdk)
  case (Throws e)
  then show ?thesis
    by (simp add: callGemini_def Let_def finally_block_fields catch_block_fields set_loading_def)
next
  case (Returns g)
  have "editedImageSrc (send_request (build_request prompt b m) (set_loading st)) = None"
    by (simp add: send_request_def set_loading_def)
  with Returns show ?thesis
    by (simp add: callGemini_returns settle_editedImageSrc split: attempt.splits option.splits)
qed










section \<open>Advisories for empty responses\<close>










section \<open>Download\<close>

lemma image_urls_elems_nonempty: "u \<in> set (image_urls ps) \<Longrightarrow> u \<noteq> []"
  by (auto simp: image_urls_def imageUrl_of_nonempty)

lemma last_image_urls_nonempty: "image_urls ps \<noteq> [] \<Longrightarrow> last (image_urls ps) \<noteq> []"
  using image_urls_elems_nonempty [of "last (image_urls ps)" ps] by simp

lemma step_editedImageSrc:
  assumes "editedImageSrc (step ev st) = Some u"
  shows "editedImageSrc st = Some u \<or> u \<noteq> []"
proof (cases ev)
  case (PromptInputEdit v)
  with assms show ?thesis by simp
next
  case (PromptExamplesChange v)
  with assms show ?thesis
    by (simp add: promptExamples_change_def split: if_splits)
next
  case (ImageUploadChange f)
  with assms show ?thesis
    by (simp add: imageUpload_change_sync_def alert_def console_error_def
        split: option.splits file_read.splits)
next
  case (ReaderLoad result)
  with assms show ?thesis
    by (auto simp: reader_onload_event_def reader_onload_def Let_def
        split: sum.splits if_splits list.splits)
next
  case (EditButtonClick sdk)
  with assms show ?thesis
    by (auto simp: editButton_click_def Let_def alert_def callGemini_editedImageSrc
        last_image_urls_nonempty split: if_splits attempt.splits option.splits)
next
  case DownloadButtonClick
  with assms show ?thesis
    by (simp add: downloadButton_click_def Let_def alert_def split: if_splits)
next
  case (RequestStart p b m)
  with assms show ?thesis
    by (simp add: send_request_def set_loading_def)
next
  case (RequestSettle p outcome)
  with assms show ?thesis
    by (auto simp: settle_editedImageSrc last_image_urls_nonempty
        split: if_splits attempt.splits option.splits)
qed

lemma run_editedImageSrc:
  "editedImageSrc st \<noteq> Some [] \<Longrightarrow> editedImageSrc (run evs st) \<noteq> Some []"
proof (induction evs arbitrary: st)
  case Nil
  then show ?case by simp
next
  case (Cons ev evs)
  have "editedImageSrc (step ev st) \<noteq> Some []"
    using step_editedImageSrc [of ev st "[]"] Cons.prems by auto
  from Cons.IH [OF this] show ?case by simp
qed

text \<open>
  C8. In every state that a sequence of events reaches from the initial state: when
  \<open>editedImageSrc\<close> is \<open>null\<close>, a click on the download button adds the alert
  "No hay imagen editada para descargar." to the alerts shown, starts no file save and
  changes nothing else; when it holds a data URL, the click starts one file save of
  exactly that URL under the name \<open>imagen-editada.png\<close>, shows no alert and changes
  nothing else (the link added to the body is removed again).
\<close>

theorem C8_download:
  assumes "is_initial s0" and "s = run evs s0"
  shows "(editedImageSrc s = None \<longrightarrow>
            alerts (downloadButton_click s) = alerts s @ [MSG_NOTHING_TO_DOWNLOAD] \<and>
            file_saves (downloadButton_click s) = file_saves s \<and>
            downloadButton_click s = s\<lparr>alerts := alerts s @ [MSG_NOTHING_TO_DOWNLOAD]\<rparr>) \<and>
         (\<forall>u. editedImageSrc s = Some u \<longrightarrow>
            file_saves (downloadButton_click s) = file_saves s @ [(u, DOWNLOAD_NAME)] \<and>
            alerts (downloadButton_click s) = alerts s \<and>
            downloadButton_click s = s\<lparr>file_saves := file_saves s @ [(u, DOWNLOAD_NAME)]\<rparr>)"
proof -
  have "editedImageSrc s0 \<noteq> Some []" using assms(1) by (simp add: is_initial_def)
  then have ne: "editedImageSrc s \<noteq> Some []" unfolding assms(2) by (rule run_editedImageSrc)
  show ?thesis
  proof (intro conjI impI allI)
    assume n: "editedImageSrc s = None"
    then show "alerts (downloadButton_click s) = alerts s @ [MSG_NOTHING_TO_DOWNLOAD]"
      by (simp add: downloadButton_click_def alert_def)
    from n show "file_saves (downloadButton_click s) = file_saves s"
      by (simp add: downloadButton_click_def alert_def)
    from n show "downloadButton_click s = s\<lparr>alerts := alerts s @ [MSG_NOTHING_TO_DOWNLOAD]\<rparr>"
      by (simp add: downloadButton_click_def alert_def)
  next
    fix u assume u: "editedImageSrc s = Some u"
    with ne have "u \<noteq> []" by auto
    with u show e: "downloadButton_click s = s\<lparr>file_saves := file_saves s @ [(u, DOWNLOAD_NAME)]\<rparr>"
      by (simp add: downloadButton_click_def Let_def)
    show "file_saves (downloadButton_click s) = file_saves s @ [(u, DOWNLOAD_NAME)]"
      by (simp add: e)
    show "alerts (downloadButton_click s) = alerts s"
      by (simp add: e)
  qed
qed

theorem C8_download_witness:
  "is_initial example_page \<and>
   editedImageSrc (run [] example_page) = None \<and>
   alerts (downloadButton_click (run [] example_page)) = [MSG_NOTHING_TO_DOWNLOAD] \<and>
   file_saves (downloadButton_click (run [] example_page)) = [] \<and>
   editedImageSrc (run example_events example_page) = Some (ustr ''data:image/png;base64,AAAA'') \<and>
   file_saves (downloadButton_click (run example_events example_page))
     = [(ustr ''data:image/png;base64,AAAA'', ustr ''imagen-editada.png'')] \<and>
   alerts (downloadButton_click (run example_events example_page)) = []"
proof -
  have h: "is_initial example_page" by code_simp
  have a: "editedImageSrc (run [] example_page) = None" by code_simp
  have a1: "alerts (run [] example_page) = []" by code_simp
  have a2: "file_saves (run [] example_page) = []" by code_simp
  have b: "editedImageSrc (run example_events example_page) = Some (ustr ''data:image/png;base64,AAAA'')"
    by code_simp
  have c: "file_saves (run example_events example_page) = []" by code_simp
  have c1: "alerts (run example_events example_page) = []" by code_simp
  have d: "DOWNLOAD_NAME = ustr ''imagen-editada.png''" by (simp add: DOWNLOAD_NAME_def)
  from C8_download [OF h, of "run [] example_page" "[]"] a a1 a2
  have e: "alerts (downloadButton_click (run [] example_page)) = [MSG_NOTHING_TO_DOWNLOAD] \<and>
           file_saves (downloadButton_click (run [] example_page)) = []"
    by simp
  from C8_download [OF h, of "run example_events example_page" example_events] b c c1 d
  have f: "file_saves (downloadButton_click (run example_events example_page))
             = [(ustr ''data:image/png;base64,AAAA'', ustr ''imagen-editada.png'')] \<and>
           alerts (downloadButton_click (run example_events example_page)) = []"
    by simp
  show ?thesis using h a b e f by simp
qed

section \<open>Example prompts\<close>

text \<open>
  C9, as stated, fails for an option whose value is the empty string: the handler
  tests the value and leaves the prompt as it is.
\<close>

theorem C9_empty_value_counterexample:
  "promptInput_value (promptExamples_change [] example_page) \<noteq> []"
  by code_simp

text \<open>
  C9, amended. Choosing an option whose value is not empty overwrites the prompt text
  with that value, as it is, and changes nothing else; choosing an option whose value
  is empty changes nothing.
\<close>

theorem C9_overwrite:
  "(v \<noteq> [] \<longrightarrow> promptExamples_change v st = st\<lparr>promptInput_value := v\<rparr>) \<and>
   promptExamples_change [] st = st"
  by (simp add: promptExamples_change_def)

theorem C9_overwrite_witness:
  "ustr ''convierte la imagen a blanco y negro'' \<noteq> [] \<and>
   promptInput_value (promptExamples_change (ustr ''convierte la imagen a blanco y negro'') example_page)
     = ustr ''convierte la imagen a blanco y negro''"
proof -
  have h: "ustr ''convierte la imagen a blanco y negro'' \<noteq> []" by (simp add: ustr_cons)
  show ?thesis
    using C9_overwrite [of "ustr ''convierte la imagen a blanco y negro''" example_page] h by simp
qed

section \<open>Parts with both an image and a text\<close>

lemma class_names_differ: "ustr ''error'' \<noteq> ustr ''model-text''"
  by (simp add: ustr_cons)

lemma for_parts_resultContainer:
  "e \<in> set (resultContainer (snd (for_parts prompt ps (f, st)))) \<Longrightarrow>
   e \<in> set (resultContainer st) \<or>
   (\<exists>q \<in> set ps.
      (\<exists>bl. part_inlineData q = Some bl \<and> e = Elem_img (imageUrl_of bl) prompt) \<or>
      (part_inlineData q = None \<and> truthy (part_text q) \<and>
       e = Elem_p (the (part_text q)) (ustr ''model-text'')))"
proof (induction ps arbitrary: f st)
  case Nil
  then show ?case by simp
next
  case (Cons p ps)
  obtain f1 st1 where r: "render_part prompt p (f, st) = (f1, st1)"
    by (cases "render_part prompt p (f, st)")
  with Cons.prems have "e \<in> set (resultContainer (snd (for_parts prompt ps (f1, st1))))"
    by simp
  from Cons.IH [OF this] have
    "e \<in> set (resultContainer st1) \<or>
     (\<exists>q \<in> set ps.
        (\<exists>bl. part_inlineData q = Some bl \<and> e = Elem_img (imageUrl_of bl) prompt) \<or>
        (part_inlineData q = None \<and> truthy (part_text q) \<and>
         e = Elem_p (the (part_text q)) (ustr ''model-text'')))" .
  moreover have "e \<in> set (resultContainer st1) \<Longrightarrow>
     e \<in> set (resultContainer st) \<or>
     (\<exists>bl. part_inlineData p = Some bl \<and> e = Elem_img (imageUrl_of bl) prompt) \<or>
     (part_inlineData p = None \<and> truthy (part_text p) \<and>
      e = Elem_p (the (part_text p)) (ustr ''model-text''))"
    using r by (auto simp: render_part_def Let_def split: option.splits if_splits)
  ultimately show ?case by auto
qed

text \<open>
  C10. The loop body on a part with inline data appends the image and nothing else,
  and stores its data URL, whatever the part's text is. And every text block in the
  result container after a response has been handled is the text of a part of the
  response that has no inline data.
\<close>

theorem C10_image_excludes_text:
  "(\<forall>bl. part_inlineData p = Some bl \<longrightarrow>
      render_part prompt p (f, st) =
        (True, st\<lparr>resultContainer := resultContainer st @ [Elem_img (imageUrl_of bl) prompt],
                  editedImageSrc := Some (imageUrl_of bl),
                  downloadButton_hidden := False\<rparr>)) \<and>
   (\<forall>t. Elem_p t (ustr ''model-text'') \<in> set (resultContainer (callGemini_settle prompt (Returns r) st)) \<longrightarrow>
      (\<exists>ps q. first_candidate_parts r = Some ps \<and> q \<in> set ps \<and>
         part_inlineData q = None \<and> part_text q = Some t))"
proof (intro conjI allI impI)
  fix bl assume "part_inlineData p = Some bl"
  then show "render_part prompt p (f, st) =
        (True, st\<lparr>resultContainer := resultContainer st @ [Elem_img (imageUrl_of bl) prompt],
                  editedImageSrc := Some (imageUrl_of bl),
                  downloadButton_hidden := False\<rparr>)"
    by (simp add: render_part_def Let_def)
next
  fix t
  assume m: "Elem_p t (ustr ''model-text'') \<in> set (resultContainer (callGemini_settle prompt (Returns r) st))"
  show "\<exists>ps q. first_candidate_parts r = Some ps \<and> q \<in> set ps \<and>
         part_inlineData q = None \<and> part_text q = Some t"
  proof (cases "first_candidate_parts r")
    case None
    with m show ?thesis
      using class_names_differ
      by (auto simp: callGemini_settle_def handle_response_eq finally_block_fields
          catch_block_fields displayError_fields split: option.splits list.splits)
  next
    case (Some ps)
    let ?fs = "for_parts prompt ps (False, st\<lparr>resultContainer := []\<rparr>)"
    have "Elem_p t (ustr ''model-text'') \<in> set (resultContainer (snd ?fs))"
      using m Some class_names_differ
      by (auto simp: callGemini_settle_def handle_response_eq Let_def finally_block_fields
          displayError_fields split: if_splits)
    from for_parts_resultContainer [OF this]
    obtain q where "q \<in> set ps" "part_inlineData q = None" "truthy (part_text q)"
      "t = the (part_text q)"
      by auto
    then have "q \<in> set ps \<and> part_inlineData q = None \<and> part_text q = Some t"
      by (cases "part_text q") auto
    with Some show ?thesis by blast
  qed
qed

theorem C10_image_excludes_text_witness:
  "part_text example_png = Some (ustr ''first'') \<and>
   render_part DEFAULT_PROMPT example_png (False, example_loaded) =
     (True, example_loaded\<lparr>resultContainer :=
                resultContainer example_loaded @
                  [Elem_img (ustr ''data:image/png;base64,AAAA'') DEFAULT_PROMPT],
              editedImageSrc := Some (ustr ''data:image/png;base64,AAAA''),
              downloadButton_hidden := False\<rparr>) \<and>
   Elem_p (ustr ''second'') (ustr ''model-text'')
     \<in> set (resultContainer (callGemini_settle DEFAULT_PROMPT
               (Returns (example_response [example_png, example_text])) example_loaded)) \<and>
   Elem_p (ustr ''first'') (ustr ''model-text'')
     \<notin> set (resultContainer (callGemini_settle DEFAULT_PROMPT
               (Returns (example_response [example_png, example_text])) example_loaded))"
proof -
  let ?r = "example_response [example_png, example_text]"
  let ?bl = "\<lparr>blob_data = Some (ustr ''AAAA''), blob_mimeType = Some (ustr ''image/png'')\<rparr>"
  note inst = C10_image_excludes_text [of example_png DEFAULT_PROMPT False example_loaded ?r]
  have t: "part_text example_png = Some (ustr ''first'')" by (simp add: example_png_def)
  have i: "part_inlineData example_png = Some ?bl" by (simp add: example_png_def)
  have u: "imageUrl_of ?bl = ustr ''data:image/png;base64,AAAA''" by code_simp
  have a: "render_part DEFAULT_PROMPT example_png (False, example_loaded) =
     (True, example_loaded\<lparr>resultContainer :=
                resultContainer example_loaded @
                  [Elem_img (ustr ''data:image/png;base64,AAAA'') DEFAULT_PROMPT],
              editedImageSrc := Some (ustr ''data:image/png;base64,AAAA''),
              downloadButton_hidden := False\<rparr>)"
    using inst i u by simp
  have b: "Elem_p (ustr ''second'') (ustr ''model-text'')
     \<in> set (resultContainer (callGemini_settle DEFAULT_PROMPT (Returns ?r) example_loaded))"
    by code_simp
  have ps: "first_candidate_parts ?r = Some [example_png, example_text]"
    by (simp add: first_candidate_parts_def example_response_def)
  have n: "ustr ''first'' \<noteq> ustr ''second''" by (simp add: ustr_cons)
  have c: "Elem_p (ustr ''first'') (ustr ''model-text'')
     \<notin> set (resultContainer (callGemini_settle DEFAULT_PROMPT (Returns ?r) example_loaded))"
  proof
    assume "Elem_p (ustr ''first'') (ustr ''model-text'')
      \<in> set (resultContainer (callGemini_settle DEFAULT_PROMPT (Returns ?r) example_loaded))"
    with inst obtain qs q where "first_candidate_parts ?r = Some qs" "q \<in> set qs"
      "part_inlineData q = None" "part_text q = Some (ustr ''first'')"
      by blast
    with ps n show False by (auto simp: example_png_def example_text_def)
  qed
  show ?thesis using t a b c by simp
qed

end
